theory Spec2Isabelle
  imports Complex_Main
begin

section \<open>The GRT dictionary adapter for Python (python\_grtdict.cpp)\<close>

text \<open>
  A shallow embedding of the \<^verbatim>\<open>grt.Dict\<close> extension type and of its iterator type.
  The adapter functions are translated from the C++ source; the generic runtime
  (\<^verbatim>\<open>grt::DictRef\<close>, \<^verbatim>\<open>grt::ValueRef\<close>) and the Python context are collaborators
  whose code is elsewhere.
\<close>

subsection \<open>Runtime values\<close>

datatype grt_Type =
  UnknownType | AnyType | IntegerType | DoubleType | StringType | ListType | DictType | ObjectType

text \<open>
  A \<^verbatim>\<open>grt::ValueRef\<close> is either invalid (it refers to no value) or refers to a value of
  one kind. A dictionary carries its content type, its content class name and its entries.
\<close>

datatype ValueRef =
    Invalid
  | IntegerValue int
  | DoubleValue real
  | StringValue string
  | ListValue "ValueRef list"
  | DictValue Dict
  | ObjectValue string
and Dict =
    Dict (content_type: grt_Type) (content_class_name: string) (entries: "(string \<times> ValueRef) list")

text \<open>
  Modelled from the spec: \<^verbatim>\<open>ValueRef::is_valid\<close> (the value is not the invalid sentinel) and
  the kind of a value are part of the runtime, whose code is not among the sources.
\<close>

definition is_valid :: "ValueRef \<Rightarrow> bool" where
  "is_valid v = (case v of Invalid \<Rightarrow> False | _ \<Rightarrow> True)"

text \<open>
  Modelled from the spec: the kind of a runtime value (\<^verbatim>\<open>ValueRef::type\<close>, not among the
  sources); the invalid value has the unknown kind.
\<close>

fun value_type :: "ValueRef \<Rightarrow> grt_Type" where
  "value_type Invalid = UnknownType"
| "value_type (IntegerValue _) = IntegerType"
| "value_type (DoubleValue _) = DoubleType"
| "value_type (StringValue _) = StringType"
| "value_type (ListValue _) = ListType"
| "value_type (DictValue _) = DictType"
| "value_type (ObjectValue _) = ObjectType"

datatype grt_exception =
    bad_item string
  | type_error grt_Type grt_Type
  | std_exception string

subsection \<open>The runtime dictionary\<close>

text \<open>
  Modelled from the spec: the storage of \<^verbatim>\<open>grt::DictRef\<close> (create, has\_key, get, set,
  remove, count, begin, end and the decrement of an iterator) is not among the sources.
  The spec describes it as an ordered mapping from string keys to runtime values with
  unique keys, where insertion order is preserved and is the canonical iteration order:
  an association list in which a new key is appended and an existing key keeps its place.
\<close>

fun store :: "string \<Rightarrow> ValueRef \<Rightarrow> (string \<times> ValueRef) list \<Rightarrow> (string \<times> ValueRef) list" where
  "store k v [] = [(k, v)]"
| "store k v (e # es) = (if fst e = k then (k, v) # es else e # store k v es)"

text \<open>
  Modelled from the spec: the constructor \<^verbatim>\<open>DictRef(true)\<close>, not among the sources,
  creates a fresh, unconstrained dictionary of any content type.
\<close>

definition DictRef_untyped :: Dict where
  "DictRef_untyped = Dict AnyType [] []"

text \<open>
  Modelled from the spec: the constructor \<^verbatim>\<open>DictRef(content_type, class_name)\<close>, not among
  the sources, creates an empty dictionary constrained to that content type and class.
\<close>

definition DictRef_typed :: "grt_Type \<Rightarrow> string \<Rightarrow> Dict" where
  "DictRef_typed t c = Dict t c []"

text \<open>
  Modelled from the spec: a dictionary is optionally constrained to a single content
  value-kind and, if that kind is object, to a named class; a store of a value that
  violates the constraint fails with BadItem. The explicit empty value can be stored
  under a key of any dictionary.
\<close>

definition accepts :: "Dict \<Rightarrow> ValueRef \<Rightarrow> bool" where
  "accepts d v =
     (if content_type d = AnyType then True
      else if v = Invalid then True
      else if value_type v = content_type d then
        (case v of
           ObjectValue c \<Rightarrow> (if content_class_name d = [] then True else c = content_class_name d)
         | _ \<Rightarrow> True)
      else False)"

text \<open>
  Modelled from the spec: \<^verbatim>\<open>DictRef::has_key\<close>, not among the sources, tells whether the
  key is present.
\<close>

definition DictRef_has_key :: "Dict \<Rightarrow> string \<Rightarrow> bool" where
  "DictRef_has_key d k = (case map_of (entries d) k of None \<Rightarrow> False | Some _ \<Rightarrow> True)"

text \<open>
  Modelled from the spec: \<^verbatim>\<open>DictRef::get\<close> is not among the sources. A lookup of an
  absent key fails with KeyNotFound carrying the key (the adapter catches
  \<^verbatim>\<open>grt::bad_item\<close> around it); a lookup of a present key gives the stored value.
\<close>

definition DictRef_get :: "Dict \<Rightarrow> string \<Rightarrow> grt_exception + ValueRef" where
  "DictRef_get d k = (case map_of (entries d) k of None \<Rightarrow> Inl (bad_item k) | Some v \<Rightarrow> Inr v)"

text \<open>
  Modelled from the spec: \<^verbatim>\<open>DictRef::set\<close> is not among the sources. The store of a value
  that violates the content constraint fails with BadItem and changes nothing; any
  other store puts the value under the key.
\<close>

definition DictRef_set :: "Dict \<Rightarrow> string \<Rightarrow> ValueRef \<Rightarrow> grt_exception + Dict" where
  "DictRef_set d k v =
     (if accepts d v
      then Inr (Dict (content_type d) (content_class_name d) (store k v (entries d)))
      else Inl (bad_item k))"

text \<open>
  Modelled from the spec: \<^verbatim>\<open>DictRef::remove\<close> is not among the sources. It removes the
  entry of the key; the removal of a missing key is a no-op.
\<close>

definition DictRef_remove :: "Dict \<Rightarrow> string \<Rightarrow> Dict" where
  "DictRef_remove d k =
     Dict (content_type d) (content_class_name d) (filter (\<lambda>e. fst e \<noteq> k) (entries d))"

text \<open>
  Modelled from the spec: \<^verbatim>\<open>DictRef::count\<close>, not among the sources, is the number of
  entries.
\<close>

definition DictRef_count :: "Dict \<Rightarrow> nat" where
  "DictRef_count d = length (entries d)"

text \<open>
  Modelled from the spec: \<^verbatim>\<open>DictRef::begin\<close> is not among the sources. A position in a
  dictionary (\<^verbatim>\<open>DictRef::const_iterator\<close>) is the index of an entry in iteration order,
  and \<^verbatim>\<open>begin()\<close> is the first position.
\<close>

definition DictRef_begin :: "Dict \<Rightarrow> nat" where
  "DictRef_begin d = 0"

text \<open>
  Modelled from the spec: \<^verbatim>\<open>DictRef::end\<close>, not among the sources, is the position past
  the final entry.
\<close>

definition DictRef_end :: "Dict \<Rightarrow> nat" where
  "DictRef_end d = length (entries d)"

text \<open>
  Modelled from the spec: the decrement of a position is not among the sources. It gives
  the position one before; the spec fixes the decrement of \<^verbatim>\<open>end()\<close> on an empty
  dictionary: there last, begin and end are the same position.
\<close>

definition decrement :: "nat \<Rightarrow> nat" where
  "decrement p = p - 1"

text \<open>
  Modelled from the spec: \<^verbatim>\<open>DictRef::cast_from\<close> fails with a type mismatch when the
  value is not a dictionary.
\<close>

definition DictRef_cast_from :: "ValueRef \<Rightarrow> grt_exception + Dict" where
  "DictRef_cast_from v =
     (case v of DictValue d \<Rightarrow> Inr d | _ \<Rightarrow> Inl (type_error DictType (value_type v)))"

subsection \<open>Host values and errors\<close>

text \<open>
  A string object of the host is given by the bytes of its UTF-8 encoding, which may
  contain NUL bytes; a string object with a lone surrogate has no UTF-8 encoding and is
  given by its code points.
\<close>

datatype PyObject =
    Py_None
  | PyBool bool
  | PyLong int
  | PyFloat real
  | PyUnicode string
  | PyUnicode_unencodable "nat list"
  | PyTuple "PyObject list"
  | PyList "PyObject list"
  | PyCapsule ValueRef
  | PyGRTDict Dict
  | PyGRTList "ValueRef list"
  | PyGRTObject string
  | PyOpaque string

datatype PyExc =
    PyExc_TypeError | PyExc_NameError | PyExc_KeyError | PyExc_ValueError
  | PyExc_AttributeError | PyExc_StopIteration | PyExc_UnicodeEncodeError

text \<open>
  The error indicator of the interpreter after a call. \<open>set_python_error\<close> stands for the
  translation of a caught runtime exception by the context, \<open>context_error\<close> for the error
  left by \<^verbatim>\<open>PythonContext::get_and_check\<close> when no context is active. Two further values
  record a call that does not return normally: an exception that leaves the function
  uncaught, and an access through a null or out-of-range pointer.
\<close>

datatype PyErr =
    PyErr_SetString PyExc string
  | PyErr_SetNone PyExc
  | set_python_error grt_exception
  | context_error
  | uncaught grt_exception
  | undefined_behaviour

text \<open>
  The services of the context that the adapter calls. Their code is not among the
  sources: they are parameters of every function below.
\<close>

record PythonContext =
  from_grt :: "ValueRef \<Rightarrow> PyObject"
  from_pyobject :: "PyObject \<Rightarrow> ValueRef"
  value_from_internal_cobject :: "PyObject \<Rightarrow> grt_exception + ValueRef"

text \<open>
  The services of the runtime that construction calls: the parser of type names
  \<^verbatim>\<open>grt::str_to_type\<close> and the lookup in the catalog of registered classes
  \<^verbatim>\<open>GRT::get_metaclass\<close> (true when the name resolves).
\<close>

record GRT =
  str_to_type :: "string \<Rightarrow> grt_Type"
  get_metaclass :: "string \<Rightarrow> bool"

definition PyUnicode_Check :: "PyObject \<Rightarrow> bool" where
  "PyUnicode_Check ob = (case ob of PyUnicode _ \<Rightarrow> True | PyUnicode_unencodable _ \<Rightarrow> True | _ \<Rightarrow> False)"

text \<open>
  A \<^verbatim>\<open>const char *\<close> is read as a C string: it ends at the first NUL byte. This is what
  becomes of the key when it is passed on to the runtime as a \<^verbatim>\<open>std::string\<close>.
\<close>

definition c_str :: "string \<Rightarrow> string" where
  "c_str s = takeWhile (\<lambda>ch. ch \<noteq> CHR 0x00) s"

text \<open>
  \<^verbatim>\<open>PyUnicode_AsUTF8\<close> returns a pointer to the UTF-8 encoding of a string object, read
  by its callers as a C string. On a string object with no UTF-8 encoding it returns NULL
  and sets a UnicodeEncodeError; on any other object it returns NULL and sets a TypeError.
\<close>

definition PyUnicode_AsUTF8 :: "PyObject \<Rightarrow> string option \<times> PyErr option" where
  "PyUnicode_AsUTF8 ob =
     (case ob of
        PyUnicode s \<Rightarrow> (Some (c_str s), None)
      | PyUnicode_unencodable _ \<Rightarrow>
          (None, Some (PyErr_SetString PyExc_UnicodeEncodeError ''surrogates not allowed''))
      | _ \<Rightarrow> (None, Some (PyErr_SetString PyExc_TypeError ''bad argument type for built-in operation'')))"

text \<open>
  The construction of a \<^verbatim>\<open>std::string\<close> from a \<^verbatim>\<open>const char *\<close>, made at each call of
  the runtime that takes a key: from a null pointer it throws.
\<close>

definition std_string :: "string option \<Rightarrow> grt_exception + string" where
  "std_string p =
     (case p of
        None \<Rightarrow> Inl (std_exception ''basic_string: construction from null is not valid'')
      | Some s \<Rightarrow> Inr s)"

subsection \<open>The adapter: operations on the backing dictionary\<close>

text \<open>
  Each function takes the dictionary that \<^verbatim>\<open>self->dict\<close> designates and the result of
  \<^verbatim>\<open>PythonContext::get_and_check\<close> (\<open>None\<close> when no context is active). A function that
  returns a \<^verbatim>\<open>PyObject *\<close> is modelled by the pair of its return value (\<open>None\<close> is NULL)
  and the error indicator it leaves; a function that mutates the dictionary also returns
  the dictionary.
\<close>

definition dict_length :: "Dict \<Rightarrow> nat" where
  "dict_length d = DictRef_count d"

text \<open>
  \<^verbatim>\<open>dict_ass_subscript\<close> does not test the pointer it gets from \<^verbatim>\<open>PyUnicode_AsUTF8\<close>.
  The three calls of the runtime are inside the try block, so the exception of a null
  key is caught and translated there.
\<close>

definition dict_ass_subscript ::
  "PythonContext option \<Rightarrow> Dict \<Rightarrow> PyObject \<Rightarrow> PyObject option \<Rightarrow> (int \<times> PyErr option) \<times> Dict" where
  "dict_ass_subscript ctx d key val =
     (if \<not> PyUnicode_Check key
      then ((- 1, Some (PyErr_SetString PyExc_KeyError ''grt.Dict key must be a string'')), d)
      else
        (let k = fst (PyUnicode_AsUTF8 key) in
         case ctx of
           None \<Rightarrow> ((- 1, Some context_error), d)
         | Some c \<Rightarrow>
             (case val of
                None \<Rightarrow>
                  (case std_string k of
                     Inl exc \<Rightarrow> ((- 1, Some (set_python_error exc)), d)
                   | Inr key_string \<Rightarrow> ((0, None), DictRef_remove d key_string))
              | Some Py_None \<Rightarrow>
                  (case std_string k of
                     Inl exc \<Rightarrow> ((- 1, Some (set_python_error exc)), d)
                   | Inr key_string \<Rightarrow>
                       (case DictRef_set d key_string Invalid of
                          Inr d' \<Rightarrow> ((0, None), d')
                        | Inl exc \<Rightarrow> ((- 1, Some (set_python_error exc)), d)))
              | Some ob \<Rightarrow>
                  (let v = from_pyobject c ob in
                   if \<not> is_valid v
                   then ((- 1, Some (PyErr_SetString PyExc_ValueError
                          ''grt.Dict may only be assigned other GRT or string/numeric values'')), d)
                   else (case std_string k of
                           Inl exc \<Rightarrow> ((- 1, Some (set_python_error exc)), d)
                         | Inr key_string \<Rightarrow>
                             (case DictRef_set d key_string v of
                                Inr d' \<Rightarrow> ((0, None), d')
                              | Inl exc \<Rightarrow> ((- 1, Some (set_python_error exc)), d)))))))"

definition dict_items :: "PythonContext option \<Rightarrow> Dict \<Rightarrow> PyObject option \<Rightarrow> PyObject option \<times> PyErr option" where
  "dict_items ctx d args =
     (case args of
        Some _ \<Rightarrow> (None, Some (PyErr_SetString PyExc_ValueError ''method takes no arguments''))
      | None \<Rightarrow>
          (case ctx of
             None \<Rightarrow> (None, Some context_error)
           | Some c \<Rightarrow>
               (Some (PyList (map (\<lambda>e. PyTuple [PyUnicode (fst e), from_grt c (snd e)]) (entries d))),
                None)))"

definition dict_has_key :: "Dict \<Rightarrow> PyObject option \<Rightarrow> PyObject option \<times> PyErr option" where
  "dict_has_key d arg =
     (case arg of
        None \<Rightarrow> (None, Some (PyErr_SetString PyExc_ValueError ''missing required argument''))
      | Some ob \<Rightarrow>
          (case PyUnicode_AsUTF8 ob of
             (Some key_to_find, err) \<Rightarrow> (Some (PyBool (DictRef_has_key d key_to_find)), err)
           | (None, err) \<Rightarrow> (Some (PyBool False), err)))"

text \<open>
  \<^verbatim>\<open>dict_setdefault\<close> parses its arguments with the format \<^verbatim>\<open>"s|O"\<close>. The outcome of
  the parse is the input of the model: the error it raised, or the key and the optional
  default. The format refuses a string with an embedded NUL or without a UTF-8
  encoding, so the key of a successful parse is the whole string. The default stays
  \<^verbatim>\<open>Py_None\<close> when none is given. A failed store is caught and
  translated, and the function goes on to the lookup, which is outside the try block.
\<close>

definition dict_setdefault ::
  "PythonContext option \<Rightarrow> Dict \<Rightarrow> PyErr + (string \<times> PyObject option)
     \<Rightarrow> (PyObject option \<times> PyErr option) \<times> Dict" where
  "dict_setdefault ctx d arg =
     (case ctx of
        None \<Rightarrow> ((None, Some context_error), d)
      | Some c \<Rightarrow>
          (case arg of
             Inl err \<Rightarrow> ((None, Some err), d)
           | Inr (key, given) \<Rightarrow>
               (let def = (case given of None \<Rightarrow> Py_None | Some ob \<Rightarrow> ob) in
                if DictRef_has_key d key
                then (case DictRef_get d key of
                        Inr v \<Rightarrow> ((Some (from_grt c v), None), d)
                      | Inl exc \<Rightarrow> ((None, Some (uncaught exc)), d))
                else (case DictRef_set d key (from_pyobject c def) of
                        Inr d' \<Rightarrow>
                          (case DictRef_get d' key of
                             Inr v \<Rightarrow> ((Some (from_grt c v), None), d')
                           | Inl exc \<Rightarrow> ((None, Some (uncaught exc)), d'))
                      | Inl exc \<Rightarrow>
                          (case DictRef_get d key of
                             Inr v \<Rightarrow> ((Some (from_grt c v), Some (set_python_error exc)), d)
                           | Inl exc' \<Rightarrow> ((None, Some (uncaught exc')), d))))))"

subsection \<open>The method table\<close>

text \<open>
  \<^verbatim>\<open>PyGRTDictMethods\<close> publishes each method with its calling convention. The interpreter
  calls a \<^verbatim>\<open>METH_NOARGS\<close> function with a NULL argument and refuses, with a TypeError, a
  call that passes any argument; it calls a \<^verbatim>\<open>METH_VARARGS\<close> function with the tuple of
  the arguments. The functions \<^verbatim>\<open>dict_keys\<close>, \<^verbatim>\<open>dict_items\<close> and \<^verbatim>\<open>dict_values\<close>
  rely on it: they reject a non-NULL argument. The wording of the TypeError is the
  interpreter's; the model keeps its beginning.
\<close>

datatype ml_flags = METH_NOARGS | METH_VARARGS

definition PyGRTDictMethods :: "(string \<times> ml_flags) list" where
  "PyGRTDictMethods =
     [(''keys'', METH_NOARGS),
      (''items'', METH_NOARGS),
      (''values'', METH_NOARGS),
      (''has_key'', METH_NOARGS),
      (''update'', METH_VARARGS),
      (''get'', METH_VARARGS),
      (''setdefault'', METH_VARARGS)]"

definition call_method ::
  "string \<Rightarrow> (PyObject option \<Rightarrow> PyObject option \<times> PyErr option) \<Rightarrow> PyObject list
     \<Rightarrow> PyObject option \<times> PyErr option" where
  "call_method name meth args =
     (case map_of PyGRTDictMethods name of
        None \<Rightarrow> (None, Some (PyErr_SetString PyExc_AttributeError name))
      | Some METH_NOARGS \<Rightarrow>
          (if args = [] then meth None
           else (None, Some (PyErr_SetString PyExc_TypeError (name @ ''() takes no arguments''))))
      | Some METH_VARARGS \<Rightarrow> meth (Some (PyTuple args)))"

text \<open>The calls \<^verbatim>\<open>d.has_key(...)\<close> and \<^verbatim>\<open>d.items(...)\<close> of host code.\<close>

definition has_key :: "Dict \<Rightarrow> PyObject list \<Rightarrow> PyObject option \<times> PyErr option" where
  "has_key d args = call_method ''has_key'' (dict_has_key d) args"

definition items :: "PythonContext option \<Rightarrow> Dict \<Rightarrow> PyObject list \<Rightarrow> PyObject option \<times> PyErr option" where
  "items ctx d args = call_method ''items'' (dict_items ctx d) args"

subsection \<open>Construction and teardown\<close>

text \<open>
  The adapter owns a heap-allocated handle \<^verbatim>\<open>grt::DictRef *dict\<close>. The heap of handles
  is a list of cells: \<^verbatim>\<open>new\<close> appends a cell and returns its address, \<^verbatim>\<open>delete\<close> of a
  null pointer does nothing and \<^verbatim>\<open>delete\<close> of a live handle releases its cell. A
  \<^verbatim>\<open>delete\<close> of a pointer whose cell is already released is undefined behaviour of the
  program: the model records it in \<open>faulted\<close>, and what it says about the cells of a
  faulted heap says nothing about the program.
\<close>

record Heap =
  cells :: "Dict option list"
  faulted :: bool

record PyGRTDictObject =
  dict :: "nat option"

definition operator_new :: "Heap \<Rightarrow> Dict \<Rightarrow> nat \<times> Heap" where
  "operator_new h d = (length (cells h), h\<lparr>cells := cells h @ [Some d]\<rparr>)"

definition is_live :: "Heap \<Rightarrow> nat \<Rightarrow> bool" where
  "is_live h a = (if a < length (cells h) then (case cells h ! a of None \<Rightarrow> False | Some _ \<Rightarrow> True) else False)"

definition operator_delete :: "Heap \<Rightarrow> nat option \<Rightarrow> Heap" where
  "operator_delete h p =
     (case p of
        None \<Rightarrow> h
      | Some a \<Rightarrow> (if is_live h a then h\<lparr>cells := (cells h)[a := None]\<rparr> else h\<lparr>faulted := True\<rparr>))"

definition live :: "Heap \<Rightarrow> nat list" where
  "live h = filter (is_live h) [0 ..< length (cells h)]"

text \<open>\<^verbatim>\<open>PyType_GenericNew\<close> gives a zero-filled object: its handle is the null pointer.\<close>

definition PyType_GenericNew_Dict :: PyGRTDictObject where
  "PyType_GenericNew_Dict = \<lparr>dict = None\<rparr>"

definition install :: "Heap \<Rightarrow> PyGRTDictObject \<Rightarrow> Dict \<Rightarrow> (int \<times> PyErr option) \<times> Heap \<times> PyGRTDictObject" where
  "install h self content =
     (case operator_new h content of (a, h') \<Rightarrow> ((0, None), h', self\<lparr>dict := Some a\<rparr>))"

text \<open>
  \<^verbatim>\<open>dict_init\<close> parses its arguments with the format \<^verbatim>\<open>"|zzO"\<close> and the keywords type,
  classname and \_\_valueptr\_\_. The outcome of the parse is the input of the model: the
  error it raised, or the three optional arguments. A missing class name constrains the
  new dictionary to no class.
\<close>

definition dict_init ::
  "GRT \<Rightarrow> PythonContext option \<Rightarrow> PyErr + (string option \<times> string option \<times> PyObject option)
     \<Rightarrow> Heap \<Rightarrow> PyGRTDictObject \<Rightarrow> (int \<times> PyErr option) \<times> Heap \<times> PyGRTDictObject" where
  "dict_init grt ctx args h self =
     (case ctx of
        None \<Rightarrow> ((- 1, Some context_error), h, self)
      | Some c \<Rightarrow>
          (case args of
             Inl err \<Rightarrow> ((- 1, Some err), h, self)
           | Inr (type, class_name, valueptr) \<Rightarrow>
               (let h1 = operator_delete h (dict self) in
                case valueptr of
                  Some ptr \<Rightarrow>
                    (case value_from_internal_cobject c ptr of
                       Inl exc \<Rightarrow> ((- 1, Some (set_python_error exc)), h1, self)
                     | Inr v \<Rightarrow>
                         (case DictRef_cast_from v of
                            Inl exc \<Rightarrow> ((- 1, Some (set_python_error exc)), h1, self)
                          | Inr content \<Rightarrow> install h1 self content))
                | None \<Rightarrow>
                    (case type of
                       None \<Rightarrow> install h1 self DictRef_untyped
                     | Some t \<Rightarrow>
                         (let content_type = str_to_type grt t in
                          if content_type = UnknownType
                          then ((- 1, Some (PyErr_SetString PyExc_TypeError
                                 ''grt type must be grt.integer, double, string, dict, dict or object'')), h1, self)
                          else (case class_name of
                                  None \<Rightarrow> install h1 self (DictRef_typed content_type [])
                                | Some cn \<Rightarrow>
                                    (if get_metaclass grt cn
                                     then install h1 self (DictRef_typed content_type cn)
                                     else ((- 1, Some (PyErr_SetString PyExc_NameError ''invalid GRT class name'')),
                                           h1, self))))))))"

definition dict_dealloc :: "Heap \<Rightarrow> PyGRTDictObject \<Rightarrow> Heap" where
  "dict_dealloc h self = operator_delete h (dict self)"


text \<open>
  The lifetime of an adapter: allocation, any number of calls of \<^verbatim>\<open>dict_init\<close> (the first
  construction and every re-construction, successful or not) and the teardown.
\<close>

fun constructions ::
  "GRT \<Rightarrow> (PythonContext option \<times> (PyErr + (string option \<times> string option \<times> PyObject option))) list
     \<Rightarrow> Heap \<Rightarrow> PyGRTDictObject \<Rightarrow> Heap \<times> PyGRTDictObject" where
  "constructions grt [] h self = (h, self)"
| "constructions grt (call # calls) h self =
     (case dict_init grt (fst call) (snd call) h self of
        (r, h', self') \<Rightarrow> constructions grt calls h' self')"

definition lifetime ::
  "GRT \<Rightarrow> (PythonContext option \<times> (PyErr + (string option \<times> string option \<times> PyObject option))) list
     \<Rightarrow> Heap \<Rightarrow> Heap" where
  "lifetime grt calls h =
     (case constructions grt calls h PyType_GenericNew_Dict of (h', self) \<Rightarrow> dict_dealloc h' self)"

text \<open>
  Two invariants of the heap relative to the heap \<open>h0\<close> in which the adapter was
  allocated: in \<open>released h0 h\<close> every cell allocated since is released; in
  \<open>owns h0 h self\<close> every cell allocated since is released, except possibly the one
  that \<^verbatim>\<open>self->dict\<close> points to, which is then a cell allocated since.
\<close>

definition released :: "Heap \<Rightarrow> Heap \<Rightarrow> bool" where
  "released h0 h = (\<exists>ext. cells h = cells h0 @ ext \<and> set ext \<subseteq> {None})"

definition owns :: "Heap \<Rightarrow> Heap \<Rightarrow> PyGRTDictObject \<Rightarrow> bool" where
  "owns h0 h self =
     (\<exists>ext. cells h = cells h0 @ ext \<and>
        (case dict self of
           None \<Rightarrow> set ext \<subseteq> {None}
         | Some a \<Rightarrow> length (cells h0) \<le> a \<and> a < length (cells h) \<and>
                     set (ext[a - length (cells h0) := None]) \<subseteq> {None}))"

subsection \<open>The iterator\<close>

text \<open>
  Iterator objects live in a heap of their own, a list indexed by address, so that the
  identity of an iterator is its address. The three positions are indices into the
  entries of the dictionary the iterator was produced from; the iterator does not own
  the dictionary, which is an argument of \<^verbatim>\<open>dictiter_iternext\<close>.
\<close>

record PyGRTDictIteratorObject =
  ob_refcnt :: nat
  isNew :: bool
  iterator :: nat
  last_iter :: nat
  end_iter :: nat

definition dict_iter :: "PyGRTDictIteratorObject list \<Rightarrow> Dict \<Rightarrow> nat \<times> PyGRTDictIteratorObject list" where
  "dict_iter heap d =
     (length heap,
      heap @ [\<lparr>ob_refcnt = 1, isNew = True, iterator = DictRef_begin d,
               last_iter = decrement (DictRef_end d), end_iter = DictRef_end d\<rparr>])"

definition dictiter_iter :: "PyGRTDictIteratorObject list \<Rightarrow> nat \<Rightarrow> nat \<times> PyGRTDictIteratorObject list" where
  "dictiter_iter heap self =
     (self, heap[self := (heap ! self)\<lparr>ob_refcnt := ob_refcnt (heap ! self) + 1, isNew := True\<rparr>])"

definition dictiter_iternext ::
  "PythonContext option \<Rightarrow> Dict \<Rightarrow> PyGRTDictIteratorObject list \<Rightarrow> nat
     \<Rightarrow> (PyObject option \<times> PyErr option) \<times> PyGRTDictIteratorObject list" where
  "dictiter_iternext ctx d heap self =
     (if length heap \<le> self then ((None, Some undefined_behaviour), heap)
      else if iterator (heap ! self) = last_iter (heap ! self) \<or> iterator (heap ! self) = end_iter (heap ! self)
      then ((None, Some (PyErr_SetNone PyExc_StopIteration)), heap)
      else
        (let it = (if isNew (heap ! self) then iterator (heap ! self) else iterator (heap ! self) + 1);
             heap' = heap[self := (heap ! self)\<lparr>isNew := False, iterator := it\<rparr>]
         in case ctx of
              None \<Rightarrow> ((None, Some undefined_behaviour), heap')
            | Some c \<Rightarrow>
                (if it < length (entries d)
                 then ((Some (from_grt c (snd (entries d ! it))), None), heap')
                 else ((None, Some undefined_behaviour), heap'))))"

text \<open>
  The loop of the host over an iterator: it calls \<^verbatim>\<open>dictiter_iternext\<close> until the call
  returns NULL. The result is the list of the values returned before and the error
  indicator left by the call that ended the loop. The loop ends: every call that returns
  a value either clears the flag or moves the cursor towards the end of the entries.
\<close>

definition remaining :: "Dict \<Rightarrow> PyGRTDictIteratorObject list \<Rightarrow> nat \<Rightarrow> nat" where
  "remaining d heap self =
     (if self < length heap
      then 2 * (length (entries d) - iterator (heap ! self)) + (if isNew (heap ! self) then 1 else 0)
      else 0)"

function iterate ::
  "PythonContext option \<Rightarrow> Dict \<Rightarrow> PyGRTDictIteratorObject list \<Rightarrow> nat \<Rightarrow> PyObject list \<times> PyErr option" where
  "iterate ctx d heap self =
     (case dictiter_iternext ctx d heap self of
        ((Some ob, err), heap') \<Rightarrow> (case iterate ctx d heap' self of (obs, final) \<Rightarrow> (ob # obs, final))
      | ((None, err), heap') \<Rightarrow> ([], err))"
  by pat_completeness auto

termination iterate
proof (relation "measure (\<lambda>(ctx, d, heap, self). remaining d heap self)", goal_cases)
  case 1
  show ?case by simp
next
  case (2 ctx d heap self x heap' r err ob)
  have "dictiter_iternext ctx d heap self = ((Some ob, err), heap')"
    using 2 by simp
  hence "remaining d heap' self < remaining d heap self"
    by (auto simp: dictiter_iternext_def remaining_def Let_def split: if_splits option.splits)
  thus ?case by simp
qed

declare iterate.simps [simp del]

text \<open>The statement \<^verbatim>\<open>for x in d\<close> of host code: produce the iterator, then loop.\<close>

definition for_in ::
  "PythonContext option \<Rightarrow> Dict \<Rightarrow> PyGRTDictIteratorObject list \<Rightarrow> PyObject list \<times> PyErr option" where
  "for_in ctx d heap = (case dict_iter heap d of (self, heap') \<Rightarrow> iterate ctx d heap' self)"

text \<open>The statements \<^verbatim>\<open>d[k] = ob\<close> of host code, one after the other.\<close>

fun assign :: "PythonContext option \<Rightarrow> Dict \<Rightarrow> (string \<times> PyObject) list \<Rightarrow> Dict" where
  "assign ctx d [] = d"
| "assign ctx d (a # rest) =
     assign ctx (snd (dict_ass_subscript ctx d (PyUnicode (fst a)) (Some (snd a)))) rest"

subsection \<open>A context and a runtime to evaluate with\<close>

text \<open>
  Modelled from the spec: the conversion of the context from runtime values to host
  values (python\_context.cpp is not among the sources). It is total and maps integer,
  real, string, list, dictionary and object values to distinct host representations, and
  the empty value to the null of the host.
\<close>

fun ToHost :: "ValueRef \<Rightarrow> PyObject" where
  "ToHost Invalid = Py_None"
| "ToHost (IntegerValue i) = PyLong i"
| "ToHost (DoubleValue r) = PyFloat r"
| "ToHost (StringValue s) = PyUnicode s"
| "ToHost (ListValue vs) = PyGRTList vs"
| "ToHost (DictValue d) = PyGRTDict d"
| "ToHost (ObjectValue c) = PyGRTObject c"

text \<open>
  Modelled from the spec: the conversion of the context from host values to runtime
  values (python\_context.cpp is not among the sources). It returns the invalid value for
  a host value with no runtime representation; the null of the host is stored as the
  empty value.
\<close>

fun ToRuntime :: "PyObject \<Rightarrow> ValueRef" where
  "ToRuntime Py_None = Invalid"
| "ToRuntime (PyBool b) = IntegerValue (if b then 1 else 0)"
| "ToRuntime (PyLong i) = IntegerValue i"
| "ToRuntime (PyFloat r) = DoubleValue r"
| "ToRuntime (PyUnicode s) = StringValue s"
| "ToRuntime (PyUnicode_unencodable cs) = Invalid"
| "ToRuntime (PyTuple obs) = ListValue (map ToRuntime obs)"
| "ToRuntime (PyList obs) = ListValue (map ToRuntime obs)"
| "ToRuntime (PyCapsule v) = Invalid"
| "ToRuntime (PyGRTDict d) = DictValue d"
| "ToRuntime (PyGRTList vs) = ListValue vs"
| "ToRuntime (PyGRTObject c) = ObjectValue c"
| "ToRuntime (PyOpaque s) = Invalid"

text \<open>
  Modelled from the spec: ResolveForeignHandle turns an opaque foreign reference into the
  runtime value it refers to and fails on any other input.
\<close>

fun ResolveForeignHandle :: "PyObject \<Rightarrow> grt_exception + ValueRef" where
  "ResolveForeignHandle (PyCapsule v) = Inr v"
| "ResolveForeignHandle ob = Inl (std_exception ''not an internal reference'')"

text \<open>
  Modelled from the spec: the active session (the context object is not among the
  sources) offers the three services above.
\<close>

definition session :: PythonContext where
  "session = \<lparr>from_grt = ToHost, from_pyobject = ToRuntime,
               value_from_internal_cobject = ResolveForeignHandle\<rparr>"

text \<open>
  Modelled from the spec: the names of the five content kinds that a type hint can name
  (the table of \<^verbatim>\<open>grt::str_to_type\<close> is not among the sources).
\<close>

definition type_names :: "(string \<times> grt_Type) list" where
  "type_names =
     [(''integer'', IntegerType), (''real'', DoubleType), (''string'', StringType),
      (''dict'', DictType), (''object'', ObjectType)]"

text \<open>
  Modelled from the spec: the parser of type names (\<^verbatim>\<open>grt::str_to_type\<close>, not among the
  sources) gives the content kind that a name names, and the unknown kind for a name
  that names none of the five.
\<close>

definition type_of_name :: "string \<Rightarrow> grt_Type" where
  "type_of_name name = (case map_of type_names name of None \<Rightarrow> UnknownType | Some t \<Rightarrow> t)"

text \<open>
  Modelled from the spec: the runtime (not among the sources) with that parser and a
  catalog of two registered classes.
\<close>

definition runtime :: GRT where
  "runtime = \<lparr>str_to_type = type_of_name,
               get_metaclass = (\<lambda>name. name \<in> set [''db.Schema'', ''db.Table''])\<rparr>"

section \<open>Properties\<close>

subsection \<open>Facts about the runtime dictionary\<close>


lemma store_absent: "map_of es k = None \<Longrightarrow> store k v es = es @ [(k, v)]"
  by (induction es) (auto split: if_splits)

lemma map_of_store: "map_of (store k v es) k = Some v"
  by (induction es) auto

lemma DictRef_get_after_set: "DictRef_set d k v = Inr d' \<Longrightarrow> DictRef_get d' k = Inr v"
  by (auto simp: DictRef_set_def DictRef_get_def map_of_store split: if_splits)

subsection \<open>Facts about the iteration loop\<close>

lemma iterate_Stop:
  "self < length heap \<Longrightarrow>
   iterator (heap ! self) = last_iter (heap ! self) \<or> iterator (heap ! self) = end_iter (heap ! self) \<Longrightarrow>
   iterate ctx d heap self = ([], Some (PyErr_SetNone PyExc_StopIteration))"
  by (subst iterate.simps) (simp add: dictiter_iternext_def)

lemma iterate_positioned:
  "self < length heap \<Longrightarrow> \<not> isNew (heap ! self) \<Longrightarrow>
   last_iter (heap ! self) = length (entries d) - 1 \<Longrightarrow> end_iter (heap ! self) = length (entries d) \<Longrightarrow>
   iterator (heap ! self) < length (entries d) \<Longrightarrow> m = length (entries d) - iterator (heap ! self) \<Longrightarrow>
   iterate (Some c) d heap self =
     (map (\<lambda>e. from_grt c (snd e)) (drop (Suc (iterator (heap ! self))) (entries d)),
      Some (PyErr_SetNone PyExc_StopIteration))"
proof (induction m arbitrary: heap)
  case 0
  then show ?case by simp
next
  case (Suc m)
  let ?i = "iterator (heap ! self)"
  show ?case
  proof (cases "?i = length (entries d) - 1")
    case True
    hence "drop (Suc ?i) (entries d) = []" using Suc.prems by simp
    moreover have "iterate (Some c) d heap self = ([], Some (PyErr_SetNone PyExc_StopIteration))"
      using True Suc.prems by (simp add: iterate_Stop)
    ultimately show ?thesis by simp
  next
    case False
    let ?heap' = "heap[self := (heap ! self)\<lparr>isNew := False, iterator := Suc ?i\<rparr>]"
    have less: "Suc ?i < length (entries d)" using False Suc.prems by arith
    have step: "dictiter_iternext (Some c) d heap self =
                  ((Some (from_grt c (snd (entries d ! Suc ?i))), None), ?heap')"
      using False Suc.prems less by (simp add: dictiter_iternext_def)
    have rest: "iterate (Some c) d ?heap' self =
                  (map (\<lambda>e. from_grt c (snd e)) (drop (Suc (iterator (?heap' ! self))) (entries d)),
                   Some (PyErr_SetNone PyExc_StopIteration))"
      by (rule Suc.IH) (use Suc.prems less in simp_all)
    have "iterate (Some c) d heap self =
            (case iterate (Some c) d ?heap' self of
               (obs, final) \<Rightarrow> (from_grt c (snd (entries d ! Suc ?i)) # obs, final))"
      by (subst iterate.simps) (simp only: step prod.case option.case)
    also have "\<dots> = (map (\<lambda>e. from_grt c (snd e)) (entries d ! Suc ?i # drop (Suc (Suc ?i)) (entries d)),
                     Some (PyErr_SetNone PyExc_StopIteration))"
      using rest Suc.prems by simp
    also have "entries d ! Suc ?i # drop (Suc (Suc ?i)) (entries d) = drop (Suc ?i) (entries d)"
      using less by (simp add: Cons_nth_drop_Suc)
    finally show ?thesis .
  qed
qed

lemma for_in_values:
  "for_in (Some c) d heap =
     (if length (entries d) = 1 then [] else map (\<lambda>e. from_grt c (snd e)) (entries d),
      Some (PyErr_SetNone PyExc_StopIteration))"
proof -
  let ?n = "length (entries d)"
  let ?it = "\<lparr>ob_refcnt = 1, isNew = True, iterator = 0, last_iter = ?n - 1, end_iter = ?n\<rparr>"
  let ?self = "length heap"
  have for_in: "for_in (Some c) d heap = iterate (Some c) d (heap @ [?it]) ?self"
    by (simp add: for_in_def dict_iter_def DictRef_begin_def DictRef_end_def decrement_def)
  consider "?n = 0" | "?n = 1" | "2 \<le> ?n" by arith
  then show ?thesis
  proof cases
    case 1
    then show ?thesis using for_in by (simp add: iterate_Stop)
  next
    case 2
    then show ?thesis using for_in by (simp add: iterate_Stop)
  next
    case 3
    have ne: "entries d \<noteq> []" using 3 by auto
    let ?heap' = "(heap @ [?it])[?self := ?it\<lparr>isNew := False, iterator := 0\<rparr>]"
    have step: "dictiter_iternext (Some c) d (heap @ [?it]) ?self =
                  ((Some (from_grt c (snd (entries d ! 0))), None), ?heap')"
      using 3 ne by (simp add: dictiter_iternext_def)
    have rest: "iterate (Some c) d ?heap' ?self =
                  (map (\<lambda>e. from_grt c (snd e)) (drop (Suc (iterator (?heap' ! ?self))) (entries d)),
                   Some (PyErr_SetNone PyExc_StopIteration))"
      by (rule iterate_positioned [where m = ?n]) (use ne in simp_all)
    have "iterate (Some c) d (heap @ [?it]) ?self =
            (case iterate (Some c) d ?heap' ?self of
               (obs, final) \<Rightarrow> (from_grt c (snd (entries d ! 0)) # obs, final))"
      by (subst iterate.simps) (simp only: step prod.case option.case)
    also have "\<dots> = (map (\<lambda>e. from_grt c (snd e)) (entries d ! 0 # drop (Suc 0) (entries d)),
                     Some (PyErr_SetNone PyExc_StopIteration))"
      using rest by simp
    also have "entries d ! 0 # drop (Suc 0) (entries d) = entries d"
      using 3 by (cases "entries d") simp_all
    finally show ?thesis using for_in 3 by simp
  qed
qed


lemma assign_valid:
  "ob \<noteq> Py_None \<Longrightarrow> is_valid (from_pyobject c ob) \<Longrightarrow> content_type d = AnyType \<Longrightarrow>
   snd (dict_ass_subscript (Some c) d (PyUnicode k) (Some ob)) =
     Dict AnyType (content_class_name d) (store (c_str k) (from_pyobject c ob) (entries d))"
  by (cases ob)
     (simp_all add: dict_ass_subscript_def PyUnicode_Check_def PyUnicode_AsUTF8_def std_string_def
        DictRef_set_def accepts_def)

subsection \<open>Iteration order\<close>

text \<open>
  Claim C1, as amended. After the assignments \<^verbatim>\<open>d["a"] = x; d["b"] = y; d["c"] = z\<close> on a
  fresh dictionary, with values that convert to valid runtime values, \<^verbatim>\<open>items()\<close> returns
  the (key, value) pairs in the order a, b, c, and the iterator returns the converted
  values alone, not pairs, in the order a, b, c, one for every entry, and then signals
  StopIteration.
\<close>

theorem items_and_iterator_order:
  assumes "x \<noteq> Py_None" "y \<noteq> Py_None" "z \<noteq> Py_None"
    and "is_valid (from_pyobject c x)" "is_valid (from_pyobject c y)" "is_valid (from_pyobject c z)"
    and "d = assign (Some c) DictRef_untyped [(''a'', x), (''b'', y), (''c'', z)]"
  shows "items (Some c) d [] =
           (Some (PyList [PyTuple [PyUnicode ''a'', from_grt c (from_pyobject c x)],
                          PyTuple [PyUnicode ''b'', from_grt c (from_pyobject c y)],
                          PyTuple [PyUnicode ''c'', from_grt c (from_pyobject c z)]]), None) \<and>
         for_in (Some c) d heap =
           ([from_grt c (from_pyobject c x), from_grt c (from_pyobject c y), from_grt c (from_pyobject c z)],
            Some (PyErr_SetNone PyExc_StopIteration))"
proof -
  have d: "d = Dict AnyType [] [(''a'', from_pyobject c x), (''b'', from_pyobject c y), (''c'', from_pyobject c z)]"
    using assms by (simp add: assign_valid DictRef_untyped_def c_str_def)
  have "items (Some c) d [] =
           (Some (PyList [PyTuple [PyUnicode ''a'', from_grt c (from_pyobject c x)],
                          PyTuple [PyUnicode ''b'', from_grt c (from_pyobject c y)],
                          PyTuple [PyUnicode ''c'', from_grt c (from_pyobject c z)]]), None)"
    by (simp add: d items_def call_method_def PyGRTDictMethods_def dict_items_def)
  moreover have "for_in (Some c) d heap =
           ([from_grt c (from_pyobject c x), from_grt c (from_pyobject c y), from_grt c (from_pyobject c z)],
            Some (PyErr_SetNone PyExc_StopIteration))"
    by (simp add: d for_in_values)
  ultimately show ?thesis by simp
qed

theorem items_and_iterator_order_witness:
  "items (Some session) (assign (Some session) DictRef_untyped [(''a'', PyLong 1), (''b'', PyLong 2), (''c'', PyLong 3)]) [] =
     (Some (PyList [PyTuple [PyUnicode ''a'', PyLong 1], PyTuple [PyUnicode ''b'', PyLong 2],
                    PyTuple [PyUnicode ''c'', PyLong 3]]), None) \<and>
   for_in (Some session) (assign (Some session) DictRef_untyped [(''a'', PyLong 1), (''b'', PyLong 2), (''c'', PyLong 3)]) [] =
     ([PyLong 1, PyLong 2, PyLong 3], Some (PyErr_SetNone PyExc_StopIteration))"
  using items_and_iterator_order [of "PyLong 1" "PyLong 2" "PyLong 3" session
      "assign (Some session) DictRef_untyped [(''a'', PyLong 1), (''b'', PyLong 2), (''c'', PyLong 3)]" "[]"]
  by (simp add: session_def is_valid_def)

text \<open>
  The claim as stated fails for the iterator: over the dictionary with the entries
  a = 1, b = 2, c = 3 it yields the three values, which are not the three pairs.
\<close>

theorem iterator_yields_values_counterexample:
  "fst (for_in (Some session) (assign (Some session) DictRef_untyped [(''a'', PyLong 1), (''b'', PyLong 2), (''c'', PyLong 3)]) [])
     = [PyLong 1, PyLong 2, PyLong 3] \<and>
   fst (for_in (Some session) (assign (Some session) DictRef_untyped [(''a'', PyLong 1), (''b'', PyLong 2), (''c'', PyLong 3)]) [])
     \<noteq> [PyTuple [PyUnicode ''a'', PyLong 1], PyTuple [PyUnicode ''b'', PyLong 2], PyTuple [PyUnicode ''c'', PyLong 3]]"
  by (simp add: for_in_values assign_valid session_def is_valid_def DictRef_untyped_def c_str_def)

subsection \<open>has\_key\<close>

text \<open>
  Claim C2. The method table publishes \<^verbatim>\<open>has_key\<close> with \<^verbatim>\<open>METH_NOARGS\<close>, so the function
  never receives a key: a call with a key is refused with a TypeError before
  \<^verbatim>\<open>dict_has_key\<close> runs, and a call without one reaches it with a NULL argument, which it
  rejects with a ValueError. Every call of the published method returns NULL.
\<close>

theorem has_key_always_fails:
  "has_key d args =
     (None, Some (if args = [] then PyErr_SetString PyExc_ValueError ''missing required argument''
                  else PyErr_SetString PyExc_TypeError ''has_key() takes no arguments''))"
  by (simp add: has_key_def call_method_def PyGRTDictMethods_def dict_has_key_def)

text \<open>
  The body of the function, had it received an argument: a boolean in every case, with
  the TypeError of the failed string access left pending for a non-string argument.
\<close>

lemma dict_has_key_with_argument:
  "dict_has_key d (Some ob) =
     (case ob of
        PyUnicode k \<Rightarrow> (Some (PyBool (DictRef_has_key d (c_str k))), None)
      | PyUnicode_unencodable cs \<Rightarrow>
          (Some (PyBool False), Some (PyErr_SetString PyExc_UnicodeEncodeError ''surrogates not allowed''))
      | _ \<Rightarrow> (Some (PyBool False),
              Some (PyErr_SetString PyExc_TypeError ''bad argument type for built-in operation'')))"
  by (simp add: dict_has_key_def PyUnicode_AsUTF8_def split: PyObject.splits)

subsection \<open>Assignment and deletion\<close>







subsection \<open>The iterator protocol\<close>

text \<open>
  Claim C4. For an iterator produced over an empty dictionary, the first call of
  \<^verbatim>\<open>dictiter_iternext\<close> returns NULL with StopIteration set, and changes nothing.
\<close>

theorem first_Next_on_empty:
  "entries d = [] \<Longrightarrow> dict_iter heap d = (self, heap') \<Longrightarrow>
   dictiter_iternext ctx d heap' self = ((None, Some (PyErr_SetNone PyExc_StopIteration)), heap')"
  by (auto simp: dict_iter_def dictiter_iternext_def DictRef_begin_def DictRef_end_def decrement_def)

theorem first_Next_on_empty_witness:
  "entries DictRef_untyped = [] \<and>
   dict_iter [] DictRef_untyped =
     (0, [\<lparr>ob_refcnt = 1, isNew = True, iterator = 0, last_iter = 0, end_iter = 0\<rparr>]) \<and>
   dictiter_iternext (Some session) DictRef_untyped
       [\<lparr>ob_refcnt = 1, isNew = True, iterator = 0, last_iter = 0, end_iter = 0\<rparr>] 0 =
     ((None, Some (PyErr_SetNone PyExc_StopIteration)),
      [\<lparr>ob_refcnt = 1, isNew = True, iterator = 0, last_iter = 0, end_iter = 0\<rparr>])"
  using first_Next_on_empty [of DictRef_untyped "[]" 0
      "[\<lparr>ob_refcnt = 1, isNew = True, iterator = 0, last_iter = 0, end_iter = 0\<rparr>]" "Some session"]
  by (simp add: DictRef_untyped_def dict_iter_def DictRef_begin_def DictRef_end_def decrement_def)

text \<open>
  Claim C8. \<^verbatim>\<open>dictiter_iter\<close> returns the address it was given, allocates nothing, takes
  one more reference, sets the flag and leaves the three positions, and every other
  iterator, as they were.
\<close>

theorem SelfIterate_same_instance:
  "self < length heap \<Longrightarrow> dictiter_iter heap self = (r, heap') \<Longrightarrow>
   r = self \<and> length heap' = length heap \<and>
   isNew (heap' ! self) \<and>
   ob_refcnt (heap' ! self) = ob_refcnt (heap ! self) + 1 \<and>
   iterator (heap' ! self) = iterator (heap ! self) \<and>
   last_iter (heap' ! self) = last_iter (heap ! self) \<and>
   end_iter (heap' ! self) = end_iter (heap ! self) \<and>
   (\<forall>other. other \<noteq> self \<longrightarrow> heap' ! other = heap ! other)"
  by (auto simp: dictiter_iter_def)

theorem SelfIterate_same_instance_witness:
  "dictiter_iter [\<lparr>ob_refcnt = 1, isNew = False, iterator = 1, last_iter = 2, end_iter = 3\<rparr>] 0 =
     (0, [\<lparr>ob_refcnt = 2, isNew = True, iterator = 1, last_iter = 2, end_iter = 3\<rparr>])"
  using SelfIterate_same_instance [of 0 "[\<lparr>ob_refcnt = 1, isNew = False, iterator = 1, last_iter = 2, end_iter = 3\<rparr>]"
      0 "[\<lparr>ob_refcnt = 2, isNew = True, iterator = 1, last_iter = 2, end_iter = 3\<rparr>]"]
  by (simp add: dictiter_iter_def)

text \<open>
  Claim C10, as amended. Over a dictionary with at least two entries and no mutation, the
  iterator yields as many values as there are entries, the value of the final entry
  included, in the order of the entries, and then signals StopIteration; over a
  dictionary with exactly one entry it yields nothing and signals StopIteration at once.
  Each result is the converted value of an entry alone.
\<close>

theorem iterator_yields_every_value:
  "(2 \<le> length (entries d) \<longrightarrow>
      for_in (Some c) d heap = (map (\<lambda>e. from_grt c (snd e)) (entries d), Some (PyErr_SetNone PyExc_StopIteration)) \<and>
      length (fst (for_in (Some c) d heap)) = DictRef_count d) \<and>
   (length (entries d) = 1 \<longrightarrow>
      for_in (Some c) d heap = ([], Some (PyErr_SetNone PyExc_StopIteration)))"
  by (simp add: for_in_values DictRef_count_def)

theorem iterator_yields_every_value_witness:
  "for_in (Some session) (Dict AnyType [] [(''x'', IntegerValue 1), (''y'', StringValue ''two'')]) [] =
     ([PyLong 1, PyUnicode ''two''], Some (PyErr_SetNone PyExc_StopIteration)) \<and>
   for_in (Some session) (Dict AnyType [] [(''x'', IntegerValue 1)]) [] =
     ([], Some (PyErr_SetNone PyExc_StopIteration))"
  using iterator_yields_every_value [of "Dict AnyType [] [(''x'', IntegerValue 1), (''y'', StringValue ''two'')]" session "[]"]
    iterator_yields_every_value [of "Dict AnyType [] [(''x'', IntegerValue 1)]" session "[]"]
  by (simp add: session_def)

text \<open>
  The claim as stated fails at two entries: both values are yielded, the one at the last
  position too, so the count is 2 and not 2 - 1.
\<close>

theorem iterator_skips_last_counterexample:
  "DictRef_count (Dict AnyType [] [(''x'', IntegerValue 1), (''y'', StringValue ''two'')]) = 2 \<and>
   fst (for_in (Some session) (Dict AnyType [] [(''x'', IntegerValue 1), (''y'', StringValue ''two'')]) []) =
     [PyLong 1, PyUnicode ''two''] \<and>
   length (fst (for_in (Some session) (Dict AnyType [] [(''x'', IntegerValue 1), (''y'', StringValue ''two'')]) [])) \<noteq> 2 - 1"
  by (simp add: for_in_values session_def DictRef_count_def)

subsection \<open>setdefault\<close>

text \<open>
  Claim C7, as amended. On an absent key, when the dictionary accepts the converted
  default, \<^verbatim>\<open>setdefault\<close> stores it under the key and returns the conversion of the value
  fetched back, which is the stored one; every dictionary of any content type accepts it
  and gets the entry appended. On a present key it returns the conversion of the stored
  value and leaves the dictionary as it was.
\<close>

theorem SetDefault_absent_and_present:
  "(\<not> DictRef_has_key d k \<and> DictRef_set d k (from_pyobject c (case given of None \<Rightarrow> Py_None | Some ob \<Rightarrow> ob)) = Inr d' \<longrightarrow>
      dict_setdefault (Some c) d (Inr (k, given)) =
        ((Some (from_grt c (from_pyobject c (case given of None \<Rightarrow> Py_None | Some ob \<Rightarrow> ob))), None), d') \<and>
      DictRef_get d' k = Inr (from_pyobject c (case given of None \<Rightarrow> Py_None | Some ob \<Rightarrow> ob))) \<and>
   (\<not> DictRef_has_key d k \<and> content_type d = AnyType \<longrightarrow>
      snd (dict_setdefault (Some c) d (Inr (k, given))) =
        Dict AnyType (content_class_name d)
          (entries d @ [(k, from_pyobject c (case given of None \<Rightarrow> Py_None | Some ob \<Rightarrow> ob))])) \<and>
   (DictRef_get d k = Inr v \<longrightarrow>
      dict_setdefault (Some c) d (Inr (k, given)) = ((Some (from_grt c v), None), d))"
proof (intro conjI impI)
  assume a: "\<not> DictRef_has_key d k \<and> DictRef_set d k (from_pyobject c (case given of None \<Rightarrow> Py_None | Some ob \<Rightarrow> ob)) = Inr d'"
  hence stored: "DictRef_set d k (from_pyobject c (case given of None \<Rightarrow> Py_None | Some ob \<Rightarrow> ob)) = Inr d'"
    by simp
  have fetched: "DictRef_get d' k = Inr (from_pyobject c (case given of None \<Rightarrow> Py_None | Some ob \<Rightarrow> ob))"
    by (rule DictRef_get_after_set [OF stored])
  with a show "dict_setdefault (Some c) d (Inr (k, given)) =
        ((Some (from_grt c (from_pyobject c (case given of None \<Rightarrow> Py_None | Some ob \<Rightarrow> ob))), None), d')"
    by (simp add: dict_setdefault_def)
  from fetched show "DictRef_get d' k = Inr (from_pyobject c (case given of None \<Rightarrow> Py_None | Some ob \<Rightarrow> ob))" .
next
  assume "\<not> DictRef_has_key d k \<and> content_type d = AnyType"
  thus "snd (dict_setdefault (Some c) d (Inr (k, given))) =
        Dict AnyType (content_class_name d)
          (entries d @ [(k, from_pyobject c (case given of None \<Rightarrow> Py_None | Some ob \<Rightarrow> ob))])"
    by (simp add: dict_setdefault_def DictRef_set_def accepts_def DictRef_get_def map_of_store
          DictRef_has_key_def store_absent split: option.splits)
next
  assume "DictRef_get d k = Inr v"
  thus "dict_setdefault (Some c) d (Inr (k, given)) = ((Some (from_grt c v), None), d)"
    by (auto simp: dict_setdefault_def DictRef_get_def DictRef_has_key_def split: option.splits)
qed

theorem SetDefault_absent_and_present_witness:
  "dict_setdefault (Some session) (Dict AnyType [] [(''n'', IntegerValue 42)]) (Inr (''k'', Some (PyUnicode ''v''))) =
     ((Some (PyUnicode ''v''), None), Dict AnyType [] [(''n'', IntegerValue 42), (''k'', StringValue ''v'')]) \<and>
   dict_setdefault (Some session) (Dict AnyType [] [(''n'', IntegerValue 42)]) (Inr (''n'', Some (PyUnicode ''v''))) =
     ((Some (PyLong 42), None), Dict AnyType [] [(''n'', IntegerValue 42)])"
  using SetDefault_absent_and_present [of "Dict AnyType [] [(''n'', IntegerValue 42)]" "''k''" session
      "Some (PyUnicode ''v'')" "Dict AnyType [] [(''n'', IntegerValue 42), (''k'', StringValue ''v'')]" "IntegerValue 0"]
    SetDefault_absent_and_present [of "Dict AnyType [] [(''n'', IntegerValue 42)]" "''n''" session
      "Some (PyUnicode ''v'')" "Dict AnyType [] []" "IntegerValue 42"]
  by (simp add: session_def DictRef_has_key_def DictRef_set_def DictRef_get_def accepts_def)

text \<open>
  The claim as stated fails on a dictionary of integers with a string default: the
  store is refused, the refusal is caught, and nothing is stored under the key.
\<close>

theorem SetDefault_rejected_counterexample:
  "\<not> DictRef_has_key (DictRef_typed IntegerType []) ''k'' \<and>
   from_pyobject session (PyUnicode ''v'') = StringValue ''v'' \<and>
   snd (dict_setdefault (Some session) (DictRef_typed IntegerType []) (Inr (''k'', Some (PyUnicode ''v'')))) =
     DictRef_typed IntegerType [] \<and>
   \<not> DictRef_has_key (snd (dict_setdefault (Some session) (DictRef_typed IntegerType []) (Inr (''k'', Some (PyUnicode ''v''))))) ''k''"
  by (simp add: session_def DictRef_typed_def DictRef_has_key_def dict_setdefault_def DictRef_set_def
        DictRef_get_def accepts_def)

subsection \<open>Construction\<close>





subsection \<open>Ownership of the handle\<close>

lemma live_released: "released h0 h \<Longrightarrow> live h = live h0"
proof -
  assume "released h0 h"
  then obtain ext where ext: "cells h = cells h0 @ ext" "set ext \<subseteq> {None}"
    by (auto simp: released_def)
  let ?n = "length (cells h0)"
  have dead: "\<not> is_live h a" if "?n \<le> a" for a
  proof (cases "a < length (cells h)")
    case True
    hence "cells h ! a \<in> set ext" using that ext by (simp add: nth_append)
    hence "cells h ! a = None" using ext by auto
    thus ?thesis by (simp add: is_live_def)
  next
    case False
    thus ?thesis by (simp add: is_live_def)
  qed
  have same: "is_live h a = is_live h0 a" if "a < ?n" for a
    using that ext by (simp add: is_live_def nth_append)
  have "live h = filter (is_live h) ([0 ..< ?n] @ [?n ..< ?n + length ext])"
    using ext upt_add_eq_append [of 0 ?n "length ext"] by (simp add: live_def)
  also have "\<dots> = filter (is_live h) [0 ..< ?n] @ filter (is_live h) [?n ..< ?n + length ext]"
    by simp
  also have "filter (is_live h) [?n ..< ?n + length ext] = []"
    using dead by (simp add: filter_empty_conv)
  also have "filter (is_live h) [0 ..< ?n] = filter (is_live h0) [0 ..< ?n]"
    using same by (intro filter_cong) auto
  finally show ?thesis by (simp add: live_def)
qed

lemma owns_delete: "owns h0 h self \<Longrightarrow> released h0 (operator_delete h (dict self))"
proof -
  assume "owns h0 h self"
  then obtain ext where ext: "cells h = cells h0 @ ext"
    and own: "case dict self of None \<Rightarrow> set ext \<subseteq> {None}
              | Some a \<Rightarrow> length (cells h0) \<le> a \<and> a < length (cells h) \<and>
                          set (ext[a - length (cells h0) := None]) \<subseteq> {None}"
    by (auto simp: owns_def)
  show ?thesis
  proof (cases "dict self")
    case None
    thus ?thesis using ext own by (auto simp: released_def operator_delete_def)
  next
    case (Some a)
    let ?n = "length (cells h0)"
    have a: "?n \<le> a" "a < length (cells h)" "set (ext[a - ?n := None]) \<subseteq> {None}"
      using own Some by auto
    show ?thesis
    proof (cases "is_live h a")
      case True
      have "cells (operator_delete h (dict self)) = cells h0 @ ext[a - ?n := None]"
        using True Some ext a by (simp add: operator_delete_def list_update_append)
      thus ?thesis using a unfolding released_def by blast
    next
      case False
      hence "cells h ! a = None" using a by (simp add: is_live_def split: option.splits)
      hence "ext ! (a - ?n) = None" using a ext by (simp add: nth_append)
      hence "ext[a - ?n := None] = ext" by (metis list_update_id)
      hence "set ext \<subseteq> {None}" using a by simp
      moreover have "cells (operator_delete h (dict self)) = cells h"
        using False Some by (simp add: operator_delete_def)
      ultimately show ?thesis using ext unfolding released_def by auto
    qed
  qed
qed

lemma released_install:
  "released h0 h \<Longrightarrow> install h self content = (r, h', self') \<Longrightarrow> owns h0 h' self'"
proof -
  assume rel: "released h0 h" and inst: "install h self content = (r, h', self')"
  from rel obtain ext where ext: "cells h = cells h0 @ ext" "set ext \<subseteq> {None}"
    by (auto simp: released_def)
  have h': "cells h' = cells h0 @ (ext @ [Some content])" and self': "dict self' = Some (length (cells h))"
    using inst ext by (auto simp: install_def operator_new_def)
  have "(ext @ [Some content])[length (cells h) - length (cells h0) := None] = ext @ [None]"
    using ext by simp
  hence "set ((ext @ [Some content])[length (cells h) - length (cells h0) := None]) \<subseteq> {None}"
    using ext by auto
  thus ?thesis
    unfolding owns_def using h' self' ext by (intro exI [of _ "ext @ [Some content]"]) simp
qed

lemma released_dangling:
  assumes own: "owns h0 h self" and rel: "released h0 h1" and len: "length (cells h1) = length (cells h)"
  shows "owns h0 h1 self"
proof -
  from rel obtain ext where ext: "cells h1 = cells h0 @ ext" "set ext \<subseteq> {None}"
    by (auto simp: released_def)
  have upd: "set (ext[i := None]) \<subseteq> {None}" for i
    using ext(2) set_update_subset_insert [of ext i None] by blast
  show ?thesis
  proof (cases "dict self")
    case None
    thus ?thesis unfolding owns_def using ext by (intro exI [of _ ext]) simp
  next
    case (Some a)
    hence "length (cells h0) \<le> a \<and> a < length (cells h)"
      using own by (auto simp: owns_def)
    thus ?thesis unfolding owns_def using ext(1) upd len Some by (intro exI [of _ ext]) simp
  qed
qed

lemma length_operator_delete: "length (cells (operator_delete h p)) = length (cells h)"
  by (simp add: operator_delete_def split: option.splits)

lemma owns_dict_init:
  assumes own: "owns h0 h self" and init: "dict_init grt ctx args h self = (r, h', self')"
  shows "owns h0 h' self'"
proof -
  let ?h1 = "operator_delete h (dict self)"
  have rel: "released h0 ?h1" using own by (rule owns_delete)
  have dangling: "owns h0 ?h1 self"
    using own rel by (rule released_dangling) (simp add: length_operator_delete)
  have installed: "owns h0 h' self'" if "install ?h1 self content = (r, h', self')" for content
    using rel that by (rule released_install)
  show ?thesis
    using init own dangling installed
    by (auto simp: dict_init_def Let_def split: option.splits sum.splits if_splits)
qed

lemma owns_constructions:
  "owns h0 h self \<Longrightarrow> constructions grt calls h self = (h', self') \<Longrightarrow> owns h0 h' self'"
proof (induction calls arbitrary: h self)
  case Nil
  then show ?case by simp
next
  case (Cons call calls)
  obtain r h1 self1 where step: "dict_init grt (fst call) (snd call) h self = (r, h1, self1)"
    by (metis prod_cases3)
  have "owns h0 h1 self1" using Cons.prems(1) step by (rule owns_dict_init)
  moreover have "constructions grt calls h1 self1 = (h', self')"
    using Cons.prems(2) step by simp
  ultimately show ?case by (rule Cons.IH)
qed

lemma owns_fresh: "owns h h PyType_GenericNew_Dict"
  by (simp add: owns_def PyType_GenericNew_Dict_def)

text \<open>
  A lifetime that ends without a fault has released every handle that the adapter
  allocated, whatever the constructions in between: none leaks.
\<close>

lemma lifetime_releases:
  "\<not> faulted (lifetime grt calls h) \<Longrightarrow> live (lifetime grt calls h) = live h"
proof -
  obtain h' self' where run: "constructions grt calls h PyType_GenericNew_Dict = (h', self')"
    by (metis surj_pair)
  have "owns h h' self'" using owns_fresh run by (rule owns_constructions)
  hence "released h (dict_dealloc h' self')" unfolding dict_dealloc_def by (rule owns_delete)
  thus ?thesis using run by (simp add: lifetime_def live_released)
qed

text \<open>
  Claim C9. The code breaks it on the exit paths of a failed re-construction.
  \<^verbatim>\<open>dict_init\<close> deletes the handle before it looks at its arguments and does not reset the
  pointer; when it then fails, on a source handle that is no dictionary, on a type hint
  or on a class name, the adapter still points to the released handle, and the
  teardown deletes that handle a second time.
\<close>

theorem failed_reconstruction_deletes_twice:
  "dict self = Some a \<Longrightarrow> is_live h a \<Longrightarrow> \<not> faulted h \<Longrightarrow>
   dict_init grt (Some c) (Inr args) h self = (r, h', self') \<Longrightarrow> fst r \<noteq> 0 \<Longrightarrow>
   \<not> is_live h' a \<and> dict self' = Some a \<and> \<not> faulted h' \<and> faulted (dict_dealloc h' self')"
  by (cases args)
     (auto simp: dict_init_def install_def operator_new_def operator_delete_def is_live_def
        dict_dealloc_def Let_def split: option.splits sum.splits if_splits)

theorem failed_reconstruction_deletes_twice_witness:
  "dict_init runtime (Some session) (Inr (Some ''colour'', None, None))
       \<lparr>cells = [Some DictRef_untyped], faulted = False\<rparr> \<lparr>dict = Some 0\<rparr> =
     ((- 1, Some (PyErr_SetString PyExc_TypeError
                   ''grt type must be grt.integer, double, string, dict, dict or object'')),
      \<lparr>cells = [None], faulted = False\<rparr>, \<lparr>dict = Some 0\<rparr>) \<and>
   dict_dealloc \<lparr>cells = [None], faulted = False\<rparr> \<lparr>dict = Some 0\<rparr> =
     \<lparr>cells = [None], faulted = True\<rparr>"
  using failed_reconstruction_deletes_twice [where self = "\<lparr>dict = Some 0\<rparr>" and a = 0
      and h = "\<lparr>cells = [Some DictRef_untyped], faulted = False\<rparr>"
      and grt = runtime and c = session and args = "(Some ''colour'', None, None)"
      and r = "(- 1, Some (PyErr_SetString PyExc_TypeError
                   ''grt type must be grt.integer, double, string, dict, dict or object''))"
      and h' = "\<lparr>cells = [None], faulted = False\<rparr>" and self' = "\<lparr>dict = Some 0\<rparr>"]
  by (simp add: runtime_def type_of_name_def type_names_def dict_init_def operator_delete_def
        is_live_def dict_dealloc_def)

end
